theory Spec2Isabelle
  imports Complex_Main "HOL-Library.Word"
begin

section \<open>JavaScript strings\<close>

text \<open>
  A JavaScript string is a sequence of UTF-16 code units; \<open>.length\<close> counts code units.
  Speech input is recognised in \<open>hi-IN\<close> first, so texts outside Latin-1 are ordinary
  inputs and an 8-bit character type would exclude them.
\<close>

type_synonym jsstring = "16 word list"

definition lit :: "string \<Rightarrow> jsstring" where
  "lit s = map of_char s"

text \<open>
  \<open>String.prototype.trim\<close> strips WhiteSpace and LineTerminator code points from both
  ends (ECMA-262, 22.1.3.32): TAB, LF, VT, FF, CR, SP, NBSP, U+1680, U+2000..U+200A,
  U+2028, U+2029, U+202F, U+205F, U+3000 and U+FEFF. All of them are single code units.
\<close>

definition js_whitespace :: "16 word \<Rightarrow> bool" where
  "js_whitespace c = (c \<in> set [0x0009, 0x000A, 0x000B, 0x000C, 0x000D, 0x0020, 0x00A0,
     0x1680, 0x2000, 0x2001, 0x2002, 0x2003, 0x2004, 0x2005, 0x2006, 0x2007, 0x2008,
     0x2009, 0x200A, 0x2028, 0x2029, 0x202F, 0x205F, 0x3000, 0xFEFF])"

definition trim :: "jsstring \<Rightarrow> jsstring" where
  "trim s = rev (dropWhile js_whitespace (rev (dropWhile js_whitespace s)))"

text \<open>\<open>hay.includes(needle)\<close>: \<open>needle\<close> occurs in \<open>hay\<close> as a contiguous run.\<close>

fun js_includes :: "jsstring \<Rightarrow> jsstring \<Rightarrow> bool" where
  "js_includes [] needle = (needle = [])"
| "js_includes (c # cs) needle =
     (take (length needle) (c # cs) = needle \<or> js_includes cs needle)"

text \<open>A string is truthy when it is not empty; \<open>null\<close> and \<open>undefined\<close> are falsy.\<close>

definition truthy :: "jsstring option \<Rightarrow> bool" where
  "truthy v = (case v of None \<Rightarrow> False | Some s \<Rightarrow> s \<noteq> [])"

section \<open>types.ts\<close>

datatype ChatMessageSender = USER | LUNA | SYSTEM

text \<open>A \<open>Date\<close> holds a time value in milliseconds since the epoch, or is an Invalid Date.\<close>

datatype js_date = Date int | InvalidDate

record ChatMessage =
  m_id :: jsstring
  m_sender :: ChatMessageSender
  m_text :: jsstring
  m_timestamp :: js_date
  m_audioUrl :: "jsstring option"

datatype AppPhase =
    INITIAL_SETUP | READY_TO_CHAT | USER_SPEAKING | PROCESSING_USER_INPUT
  | LUNA_THINKING | LUNA_SPEAKING | SESSION_ENDED | ERROR

section \<open>services/geminiService.ts\<close>

record ServiceMetrics =
  requestCount :: nat
  errorCount :: nat
  lastError :: "jsstring option"
  lastSuccessfulRequest :: "int option"
  averageResponseTime :: rat

text \<open>
  The \<open>GoogleGenAI\<close> client is known by the key it was built with; the field \<open>ai\<close> of
  the manager is \<open>None\<close> for \<open>null\<close>. Response times are differences of \<open>Date.now()\<close>
  readings in milliseconds. The average is kept as an exact fraction: the rounding of
  the double division is not modelled, and no statement below depends on it.
\<close>

record GoogleGenAI =
  apiKey :: jsstring

record GeminiServiceManager =
  ai :: "GoogleGenAI option"
  metrics :: ServiceMetrics
  responseTimes :: "int list"

text \<open>What a \<open>catch\<close> receives: an \<open>Error\<close> with its message, or any other value.\<close>

datatype thrown = ErrorObj jsstring | NonError

definition message_of :: "thrown \<Rightarrow> jsstring" where
  "message_of e = (case e of ErrorObj m \<Rightarrow> m | NonError \<Rightarrow> lit ''Unknown error'')"

definition logError :: "jsstring \<Rightarrow> GeminiServiceManager \<Rightarrow> GeminiServiceManager" where
  "logError err s =
     s\<lparr>metrics := (metrics s)\<lparr>errorCount := errorCount (metrics s) + 1,
                                 lastError := Some err\<rparr>\<rparr>"

text \<open>
  The constructor: \<open>process.env.API_KEY || process.env.GEMINI_API_KEY\<close>, then
  \<open>new GoogleGenAI\<close>, whose failure (the last argument, when it throws) is caught.
\<close>

definition js_or :: "jsstring option \<Rightarrow> jsstring option \<Rightarrow> jsstring option" where
  "js_or a b = (if truthy a then a else b)"

definition initializeService ::
  "jsstring option \<Rightarrow> jsstring option \<Rightarrow> thrown option \<Rightarrow> GeminiServiceManager" where
  "initializeService env_API_KEY env_GEMINI_API_KEY ctor_throws =
     (let fresh = \<lparr>ai = None,
                    metrics = \<lparr>requestCount = 0, errorCount = 0, lastError = None,
                               lastSuccessfulRequest = None, averageResponseTime = 0\<rparr>,
                    responseTimes = []\<rparr>;
          key = js_or env_API_KEY env_GEMINI_API_KEY
      in if \<not> truthy key then logError (lit ''API key not configured'') fresh
         else (case ctor_throws of
                 None \<Rightarrow> fresh\<lparr>ai := Some \<lparr>apiKey = the key\<rparr>\<rparr>
               | Some e \<Rightarrow>
                   logError (lit ''Initialization failed: '' @
                     (case e of ErrorObj m \<Rightarrow> m | NonError \<Rightarrow> lit ''Unknown error'')) fresh))"

text \<open>
  \<open>recordResponseTime(startTime)\<close> takes the elapsed time \<open>Date.now() - startTime\<close>,
  pushes it, drops the oldest entry beyond 100 and recomputes the average.
\<close>

definition recordResponseTime :: "int \<Rightarrow> GeminiServiceManager \<Rightarrow> GeminiServiceManager" where
  "recordResponseTime responseTime s =
     (let pushed = responseTimes s @ [responseTime];
          kept = (if length pushed > 100 then tl pushed else pushed)
      in s\<lparr>responseTimes := kept,
           metrics := (metrics s)\<lparr>averageResponseTime :=
                         of_int (sum_list kept) / of_nat (length kept)\<rparr>\<rparr>)"

text \<open>\<open>getMetrics\<close> returns \<open>{ ...this.metrics }\<close>: a fresh object, a copy of the fields.\<close>

definition getMetrics :: "GeminiServiceManager \<Rightarrow> ServiceMetrics" where
  "getMetrics s = metrics s"

definition isHealthy :: "GeminiServiceManager \<Rightarrow> bool" where
  "isHealthy s = (ai s \<noteq> None \<and> errorCount (metrics s) < 10)"

definition getAI :: "GeminiServiceManager \<Rightarrow> GoogleGenAI option" where
  "getAI s = ai s"

text \<open>
  The module: its one \<open>geminiService\<close> instance, and what leaves it. \<open>apiCalls\<close> lists the
  messages handed to \<open>chat.sendMessage\<close>, oldest first; \<open>warnings\<close> lists the
  \<open>console.warn\<close> lines. \<open>console.log\<close> and \<open>console.error\<close> lines change no state and
  are left out.
\<close>

record geminiModule =
  geminiService :: GeminiServiceManager
  apiCalls :: "jsstring list"
  warnings :: "jsstring list"

datatype role = user | model

record Content =
  c_role :: role
  c_text :: jsstring

record Chat =
  systemInstruction :: jsstring
  history :: "Content list"

text \<open>
  \<open>initLunaChat\<close>. The persona prompt is \<open>LUNA_SYSTEM_PROMPT_TEMPLATE.replace(...)\<close>; the
  template is a constant of another module, so the instantiation is taken as the
  parameter \<open>prompt_for\<close>. \<open>create_throws\<close> is the error of \<open>ai.chats.create\<close>, when it
  throws.
\<close>

definition warn :: "jsstring \<Rightarrow> geminiModule \<Rightarrow> geminiModule" where
  "warn line m = m\<lparr>warnings := warnings m @ [line]\<rparr>"

definition initLunaChat ::
  "(jsstring \<Rightarrow> jsstring) \<Rightarrow> thrown option \<Rightarrow> jsstring \<Rightarrow> Content list option \<Rightarrow>
   geminiModule \<Rightarrow> Chat option \<times> geminiModule" where
  "initLunaChat prompt_for create_throws symbolicName existingHistory m =
     (case getAI (geminiService m) of
        None \<Rightarrow> (None, m)
      | Some client \<Rightarrow>
          (let m1 = (if \<not> isHealthy (geminiService m)
                     then warn (lit ''Gemini AI service health check failed. Proceeding with caution.'') m
                     else m)
           in case create_throws of
                None \<Rightarrow>
                  (Some \<lparr>systemInstruction = prompt_for symbolicName,
                         history = (case existingHistory of None \<Rightarrow> [] | Some h \<Rightarrow> h)\<rparr>, m1)
              | Some e \<Rightarrow> (None, m1)))"

text \<open>
  How \<open>chat.sendMessage\<close> ends, with the time in milliseconds after dispatch at which it
  settles: it resolves with a response whose \<open>text\<close> is a string or \<open>undefined\<close>, it
  rejects (or throws at once: time 0), or it never settles.
\<close>

datatype api_outcome =
    Resolves nat "jsstring option"
  | Rejects nat thrown
  | Pending

datatype settled = Fulfilled "jsstring option" | Rejected thrown

definition REQUEST_TIMEOUT_MS :: nat where
  "REQUEST_TIMEOUT_MS = 30000"

text \<open>
  \<open>Promise.race([apiCall, timeoutPromise])\<close>: the call's own outcome when it settles before
  the timer, the rejection \<open>new Error('Request timeout')\<close> otherwise. The first component
  is the time at which the race settles.
\<close>

definition promise_race :: "api_outcome \<Rightarrow> nat \<times> settled" where
  "promise_race out =
     (case out of
        Resolves t response \<Rightarrow>
          if t < REQUEST_TIMEOUT_MS then (t, Fulfilled response)
          else (REQUEST_TIMEOUT_MS, Rejected (ErrorObj (lit ''Request timeout'')))
      | Rejects t e \<Rightarrow>
          if t < REQUEST_TIMEOUT_MS then (t, Rejected e)
          else (REQUEST_TIMEOUT_MS, Rejected (ErrorObj (lit ''Request timeout'')))
      | Pending \<Rightarrow> (REQUEST_TIMEOUT_MS, Rejected (ErrorObj (lit ''Request timeout''))))"

definition MSG_UNAVAILABLE :: jsstring where
  "MSG_UNAVAILABLE =
     lit ''I'm currently experiencing technical difficulties. Please try again in a moment.''"

definition MSG_BLANK :: jsstring where
  "MSG_BLANK = lit ''I didn't catch that. Could you please share your thoughts again?''"

definition MSG_TOO_LONG :: jsstring where
  "MSG_TOO_LONG = lit ''That's quite a lot to process at once. Could you break that down into smaller thoughts for me?''"

definition MSG_EMPTY_RESPONSE :: jsstring where
  "MSG_EMPTY_RESPONSE = lit ''I'm sorry, I seem to be having a little trouble forming a response right now. Could you try saying that again?''"

definition MSG_TIMEOUT :: jsstring where
  "MSG_TIMEOUT = lit ''I'm taking a bit longer than usual to respond. Please try again.''"

definition MSG_QUOTA :: jsstring where
  "MSG_QUOTA = lit ''I'm experiencing high demand right now. Please try again in a few minutes.''"

definition MSG_CONNECTIVITY :: jsstring where
  "MSG_CONNECTIVITY = lit ''I'm having trouble connecting right now. Please check your internet connection and try again.''"

definition MSG_UNKNOWN :: jsstring where
  "MSG_UNKNOWN = lit ''I'm having a bit of trouble at the moment. Please try again in a little while.''"

text \<open>The \<open>catch\<close> block's chain of tests on the error message.\<close>

definition contextual_message :: "jsstring \<Rightarrow> jsstring" where
  "contextual_message errorMessage =
     (if js_includes errorMessage (lit ''timeout'') then MSG_TIMEOUT
      else if js_includes errorMessage (lit ''quota'') \<or> js_includes errorMessage (lit ''limit'')
        then MSG_QUOTA
      else if js_includes errorMessage (lit ''network'')
              \<or> js_includes errorMessage (lit ''connection'')
        then MSG_CONNECTIVITY
      else MSG_UNKNOWN)"

text \<open>
  \<open>sendUserMessageToLuna\<close>. \<open>out\<close> is how the network call ends and \<open>now\<close> the clock when
  the response is handled. The result is the value the promise resolves with (\<open>None\<close>
  for \<open>null\<close>) and the module afterwards. Both writes through \<open>getMetrics()\<close> go to the
  copy that \<open>getMetrics\<close> returned, which is then dropped: \<open>bumped\<close> and \<open>stamped\<close> are
  those copies.
\<close>

definition sendUserMessageToLuna ::
  "Chat \<Rightarrow> jsstring \<Rightarrow> ChatMessage list \<Rightarrow> api_outcome \<Rightarrow> int \<Rightarrow> geminiModule \<Rightarrow>
   jsstring option \<times> geminiModule" where
  "sendUserMessageToLuna chat userMessageText currentHistory out now m =
     (case getAI (geminiService m) of
        None \<Rightarrow> (Some MSG_UNAVAILABLE, m)
      | Some client \<Rightarrow>
          (let m1 = (if \<not> isHealthy (geminiService m)
                     then warn (lit ''Service health degraded. Attempting request anyway.'') m
                     else m)
           in if userMessageText = [] \<or> length (trim userMessageText) = 0
                then (Some MSG_BLANK, m1)
              else if length userMessageText > 4000
                then (Some MSG_TOO_LONG, m1)
              else
                (let bumped = (getMetrics (geminiService m1))
                       \<lparr>requestCount := requestCount (getMetrics (geminiService m1)) + 1\<rparr>;
                     m2 = m1\<lparr>apiCalls := apiCalls m1 @ [trim userMessageText]\<rparr>
                 in case promise_race out of
                      (t, Fulfilled response) \<Rightarrow>
                        (let m3 = m2\<lparr>geminiService :=
                                       recordResponseTime (int t) (geminiService m2)\<rparr>;
                             stamped = (getMetrics (geminiService m3))
                               \<lparr>lastSuccessfulRequest := Some now\<rparr>
                         in if truthy response \<and> length (trim (the response)) > 0
                              then (Some (trim (the response)), m3)
                            else (Some MSG_EMPTY_RESPONSE,
                                  m3\<lparr>geminiService :=
                                       logError (lit ''Empty response received'')
                                         (geminiService m3)\<rparr>))
                    | (t, Rejected error) \<Rightarrow>
                        (let errorMessage = message_of error
                         in (Some (contextual_message errorMessage),
                             m2\<lparr>geminiService :=
                                  logError (lit ''API call failed: '' @ errorMessage)
                                    (geminiService m2)\<rparr>)))))"

definition getServiceMetrics :: "geminiModule \<Rightarrow> ServiceMetrics" where
  "getServiceMetrics m = getMetrics (geminiService m)"

definition isServiceHealthy :: "geminiModule \<Rightarrow> bool" where
  "isServiceHealthy m = isHealthy (geminiService m)"

section \<open>services/storageService.ts\<close>

text \<open>
  \<open>localStorage\<close> maps keys to texts. \<open>JSON.stringify\<close> and \<open>JSON.parse\<close> belong to the
  platform; a stored text is represented by what it denotes. \<open>HistoryText js\<close> is the JSON
  text of an array of message objects: \<open>JSON.stringify\<close> writes a \<open>Date\<close> through
  \<open>toJSON\<close>, as the ISO-8601 string of its instant (\<open>JIso\<close>), or as \<open>null\<close> for an
  Invalid Date. \<open>OtherText s\<close> is any text \<open>s\<close> that does not denote an array: on it
  \<open>JSON.parse\<close> throws, or \<open>.map\<close> is not a function. Arrays of other things than
  messages are outside the model: only \<open>saveChatHistory\<close> writes under the history keys.
\<close>

datatype json_time = JIso int | JNull

record json_message =
  j_id :: jsstring
  j_sender :: ChatMessageSender
  j_text :: jsstring
  j_timestamp :: json_time
  j_audioUrl :: "jsstring option"

datatype stored_text = HistoryText "json_message list" | OtherText jsstring

text \<open>
  Access to the storage can throw: every call when the storage is \<open>blocked\<close> (a
  SecurityError), \<open>setItem\<close> when the quota is used up (\<open>full\<close>).
\<close>

record localStorage =
  items :: "jsstring \<Rightarrow> stored_text option"
  blocked :: bool
  full :: bool

definition getItem :: "jsstring \<Rightarrow> localStorage \<Rightarrow> thrown + stored_text option" where
  "getItem k ls = (if blocked ls then Inl (ErrorObj (lit ''SecurityError'')) else Inr (items ls k))"

definition setItem :: "jsstring \<Rightarrow> stored_text \<Rightarrow> localStorage \<Rightarrow> thrown + localStorage" where
  "setItem k v ls =
     (if blocked ls then Inl (ErrorObj (lit ''SecurityError''))
      else if full ls then Inl (ErrorObj (lit ''QuotaExceededError''))
      else Inr (ls\<lparr>items := (items ls)(k \<mapsto> v)\<rparr>))"

definition CHAT_HISTORY_PREFIX :: jsstring where
  "CHAT_HISTORY_PREFIX = lit ''lunaApp_chatHistory_''"

definition toJSON :: "ChatMessage \<Rightarrow> json_message" where
  "toJSON msg =
     \<lparr>j_id = m_id msg, j_sender = m_sender msg, j_text = m_text msg,
      j_timestamp = (case m_timestamp msg of Date t \<Rightarrow> JIso t | InvalidDate \<Rightarrow> JNull),
      j_audioUrl = m_audioUrl msg\<rparr>"

definition JSON_stringify :: "ChatMessage list \<Rightarrow> stored_text" where
  "JSON_stringify msgs = HistoryText (map toJSON msgs)"

definition JSON_parse :: "stored_text \<Rightarrow> thrown + json_message list" where
  "JSON_parse v =
     (case v of HistoryText js \<Rightarrow> Inr js
              | OtherText s \<Rightarrow> Inl (ErrorObj (lit ''not an array of messages'')))"

text \<open>\<open>new Date(msg.timestamp)\<close>: the instant of an ISO string; \<open>new Date(null)\<close> is the epoch.\<close>

definition new_Date :: "json_time \<Rightarrow> js_date" where
  "new_Date v = (case v of JIso t \<Rightarrow> Date t | JNull \<Rightarrow> Date 0)"

definition rehydrate :: "json_message \<Rightarrow> ChatMessage" where
  "rehydrate msg =
     \<lparr>m_id = j_id msg, m_sender = j_sender msg, m_text = j_text msg,
      m_timestamp = new_Date (j_timestamp msg), m_audioUrl = j_audioUrl msg\<rparr>"

definition text_truthy :: "stored_text \<Rightarrow> bool" where
  "text_truthy v = (case v of HistoryText js \<Rightarrow> True | OtherText s \<Rightarrow> s \<noteq> [])"

definition saveChatHistory :: "jsstring \<Rightarrow> ChatMessage list \<Rightarrow> localStorage \<Rightarrow> localStorage" where
  "saveChatHistory symbolicNameId msgs ls =
     (if symbolicNameId = [] then ls
      else case setItem (CHAT_HISTORY_PREFIX @ symbolicNameId) (JSON_stringify msgs) ls of
             Inl e \<Rightarrow> ls
           | Inr ls' \<Rightarrow> ls')"

definition loadChatHistory :: "jsstring \<Rightarrow> localStorage \<Rightarrow> ChatMessage list option" where
  "loadChatHistory symbolicNameId ls =
     (if symbolicNameId = [] then None
      else case getItem (CHAT_HISTORY_PREFIX @ symbolicNameId) ls of
             Inl e \<Rightarrow> None
           | Inr None \<Rightarrow> None
           | Inr (Some storedHistory) \<Rightarrow>
               if text_truthy storedHistory
               then (case JSON_parse storedHistory of
                       Inl e \<Rightarrow> None
                     | Inr parsedHistory \<Rightarrow> Some (map rehydrate parsedHistory))
               else None)"

section \<open>hooks: useSpeechSynthesis\<close>

text \<open>
  The hook's state, and \<open>queue\<close>: the utterances handed to \<open>speechSynthesis.speak\<close> and
  not yet finished or cancelled.
\<close>

record SpeechSynthesisHook =
  isSpeaking :: bool
  isSupported :: bool
  speechError :: "jsstring option"
  queue :: "jsstring list"

definition speak :: "jsstring \<Rightarrow> SpeechSynthesisHook \<Rightarrow> SpeechSynthesisHook" where
  "speak text h =
     (if \<not> isSupported h \<or> isSpeaking h then h
      else h\<lparr>speechError := None, queue := queue h @ [text]\<rparr>)"

definition cancel :: "SpeechSynthesisHook \<Rightarrow> SpeechSynthesisHook" where
  "cancel h = (if \<not> isSupported h then h else h\<lparr>queue := [], isSpeaking := False\<rparr>)"

definition utterance_onstart :: "SpeechSynthesisHook \<Rightarrow> SpeechSynthesisHook" where
  "utterance_onstart h = h\<lparr>isSpeaking := True\<rparr>"

definition utterance_onend :: "SpeechSynthesisHook \<Rightarrow> SpeechSynthesisHook" where
  "utterance_onend h = h\<lparr>isSpeaking := False, queue := tl (queue h)\<rparr>"

section \<open>hooks: useSpeechRecognition\<close>

definition SPEECH_END_TIMEOUT_MS :: nat where
  "SPEECH_END_TIMEOUT_MS = 1500"

text \<open>
  The hook in a browser that has speech recognition. \<open>active\<close> and \<open>lang\<close> belong to the
  recogniser that \<open>recognitionRef.current\<close> holds: whether it has a running session, and
  its language. \<open>speechEndTimeout\<close> is the pending silence timer with the milliseconds
  left on it: every \<open>setTimeout\<close> of the hook comes right after
  \<open>clearSpeechEndTimeout\<close>, so at most one is pending. The handlers are closures of the
  effect run that installed them; that effect runs again whenever \<open>isListening\<close> changes,
  so the \<open>isListening\<close> they read is the one of the state. Two fields observe the hook:
  \<open>stopCalls\<close> counts the calls of \<open>recognition.stop()\<close>, and \<open>finalized\<close> lists the
  arguments of the non-null \<open>setFinalizedText\<close> calls, oldest first.
\<close>

record SpeechRecognitionHook =
  isListening :: bool
  transcript :: jsstring
  transcriptRef :: jsstring
  finalizedText :: "jsstring option"
  micError :: "jsstring option"
  speechEndTimeout :: "nat option"
  active :: bool
  lang :: jsstring
  stopCalls :: nat
  finalized :: "jsstring list"

definition clearSpeechEndTimeout :: "SpeechRecognitionHook \<Rightarrow> SpeechRecognitionHook" where
  "clearSpeechEndTimeout r = r\<lparr>speechEndTimeout := None\<rparr>"

text \<open>The effect \<open>transcriptRef.current = transcript\<close>, run after a render.\<close>

definition syncTranscriptRef :: "SpeechRecognitionHook \<Rightarrow> SpeechRecognitionHook" where
  "syncTranscriptRef r = r\<lparr>transcriptRef := transcript r\<rparr>"

text \<open>
  The effect on \<open>[hasRecognitionSupport, isListening]\<close>, run again because \<open>isListening\<close>
  has changed. Its cleanup clears the timer, takes the handlers off the recogniser in
  \<open>recognitionRef.current\<close> and aborts it; its body puts a new recogniser there, with
  language \<open>hi-IN\<close> and the handlers on it. Nothing starts the new recogniser.
\<close>

definition recognitionEffect :: "SpeechRecognitionHook \<Rightarrow> SpeechRecognitionHook" where
  "recognitionEffect r = (clearSpeechEndTimeout r)\<lparr>active := False, lang := lit ''hi-IN''\<rparr>"

text \<open>The render after a handler has run on the state \<open>before\<close>, with its effects.\<close>

definition render :: "SpeechRecognitionHook \<Rightarrow> SpeechRecognitionHook \<Rightarrow> SpeechRecognitionHook" where
  "render before after =
     (let r1 = syncTranscriptRef after
      in if isListening r1 \<noteq> isListening before then recognitionEffect r1 else r1)"

definition setFinalizedText :: "jsstring \<Rightarrow> SpeechRecognitionHook \<Rightarrow> SpeechRecognitionHook" where
  "setFinalizedText t r = r\<lparr>finalizedText := Some t, finalized := finalized r @ [t]\<rparr>"

text \<open>
  \<open>onresult\<close>: the event carries \<open>resultIndex\<close> and, for each result, the transcript of
  its first alternative.
\<close>

definition onresult :: "nat \<Rightarrow> jsstring list \<Rightarrow> SpeechRecognitionHook \<Rightarrow> SpeechRecognitionHook" where
  "onresult resultIndex results r =
     (let r1 = clearSpeechEndTimeout r;
          fullTranscriptThisAttempt = concat (drop resultIndex results)
      in r1\<lparr>transcript := transcript r1 @ fullTranscriptThisAttempt\<rparr>)"

definition onspeechstart :: "SpeechRecognitionHook \<Rightarrow> SpeechRecognitionHook" where
  "onspeechstart r =
     (clearSpeechEndTimeout r)\<lparr>transcript := [], transcriptRef := [], micError := None\<rparr>"

definition onspeechend :: "SpeechRecognitionHook \<Rightarrow> SpeechRecognitionHook" where
  "onspeechend r = (clearSpeechEndTimeout r)\<lparr>speechEndTimeout := Some SPEECH_END_TIMEOUT_MS\<rparr>"

definition onend :: "SpeechRecognitionHook \<Rightarrow> SpeechRecognitionHook" where
  "onend r =
     (let r1 = (clearSpeechEndTimeout r)\<lparr>isListening := False\<rparr>
      in if trim (transcriptRef r1) \<noteq> [] then setFinalizedText (trim (transcriptRef r1)) r1
         else r1)"

text \<open>\<open>onerror\<close>, with the event's \<open>error\<close> and \<open>message\<close>.\<close>

definition onerror :: "jsstring \<Rightarrow> jsstring \<Rightarrow> SpeechRecognitionHook \<Rightarrow> SpeechRecognitionHook" where
  "onerror err msg r =
     (let r1 = clearSpeechEndTimeout r;
          r2 = (if err = lit ''no-speech''
                  then r1\<lparr>micError := Some (lit ''I didn't hear anything. Try speaking, or tap 'Send' if you're done.'')\<rparr>
                else if err = lit ''audio-capture''
                  then r1\<lparr>micError := Some (lit ''I couldn't access your microphone. Please check permissions.'')\<rparr>
                else if err = lit ''not-allowed''
                  then r1\<lparr>micError := Some (lit ''Microphone access was denied. Please enable it in your browser settings.'')\<rparr>
                else if err = lit ''language-not-supported''
                  then r1\<lparr>micError := Some (lit ''Hindi speech input may not be fully supported by your browser. You can try speaking in English. Error: '' @ msg),
                         lang := lit ''en-US''\<rparr>
                else if err = lit ''aborted'' \<and> trim (transcriptRef r1) = []
                  then r1\<lparr>micError := None\<rparr>
                else r1\<lparr>micError := Some (lit ''An error occurred: '' @ err)\<rparr>)
      in r2\<lparr>isListening := False\<rparr>)"

text \<open>
  \<open>recognition.stop()\<close>: a running session ends and the recogniser dispatches \<open>end\<close>;
  on a recogniser without a session nothing happens.
\<close>

definition recognition_stop :: "SpeechRecognitionHook \<Rightarrow> SpeechRecognitionHook" where
  "recognition_stop r =
     (let r1 = r\<lparr>stopCalls := stopCalls r + 1\<rparr>
      in if active r1 then onend (r1\<lparr>active := False\<rparr>) else r1)"

text \<open>The callback of the silence timer.\<close>

definition speechEndTimeout_fires :: "SpeechRecognitionHook \<Rightarrow> SpeechRecognitionHook" where
  "speechEndTimeout_fires r = (if isListening r then recognition_stop r else r)"

text \<open>
  \<open>startListening\<close>. What \<open>recognition.start()\<close> throws is a parameter: \<open>start1\<close> for the
  first call, \<open>start2\<close> for the call of the fallback to \<open>en-US\<close>; \<open>None\<close> when the call
  succeeds and the session runs.
\<close>

record dom_exception =
  e_name :: jsstring
  e_message :: jsstring

definition could_not_start :: "dom_exception \<Rightarrow> jsstring" where
  "could_not_start e =
     lit ''Could not start voice input: '' @
       (if e_message e \<noteq> [] then e_message e else lit ''Please try again.'')"

definition startListening ::
  "dom_exception option \<Rightarrow> dom_exception option \<Rightarrow> SpeechRecognitionHook \<Rightarrow> SpeechRecognitionHook" where
  "startListening start1 start2 r =
     (if \<not> isListening r then
        (let r1 = (clearSpeechEndTimeout r)
                    \<lparr>transcript := [], transcriptRef := [], finalizedText := None,
                     micError := None\<rparr>;
             r2 = (if lang r1 \<noteq> lit ''hi-IN'' \<and> lang r1 \<noteq> lit ''en-US''
                   then r1\<lparr>lang := lit ''hi-IN''\<rparr> else r1)
         in case start1 of
              None \<Rightarrow> r2\<lparr>active := True, isListening := True\<rparr>
            | Some e \<Rightarrow>
                (let r3 =
                   (if e_name e = lit ''NotAllowedError'' \<or> e_name e = lit ''SecurityError''
                      then r2\<lparr>micError := Some (lit ''Microphone access was denied. Please enable it in your browser settings.'')\<rparr>
                    else if e_name e = lit ''InvalidStateError'' \<and> lang r2 = lit ''hi-IN''
                      then (let r4 = r2\<lparr>lang := lit ''en-US''\<rparr>
                            in case start2 of
                                 None \<Rightarrow> r4\<lparr>active := True, isListening := True\<rparr>
                               | Some e2 \<Rightarrow>
                                   r4\<lparr>micError := Some (could_not_start e2),
                                      isListening := False\<rparr>)
                    else r2\<lparr>micError := Some (could_not_start e)\<rparr>)
                 in if e_name e \<noteq> lit ''InvalidStateError'' then r3\<lparr>isListening := False\<rparr>
                    else r3))
      else r)"

definition stopListening :: "SpeechRecognitionHook \<Rightarrow> SpeechRecognitionHook" where
  "stopListening r =
     (let r1 = clearSpeechEndTimeout r
      in if isListening r1 then recognition_stop r1
         else if trim (transcriptRef r1) \<noteq> [] then setFinalizedText (trim (transcriptRef r1)) r1
         else r1)"

definition resetTranscript :: "SpeechRecognitionHook \<Rightarrow> SpeechRecognitionHook" where
  "resetTranscript r = r\<lparr>transcript := [], transcriptRef := []\<rparr>"

definition clearFinalizedText :: "SpeechRecognitionHook \<Rightarrow> SpeechRecognitionHook" where
  "clearFinalizedText r = r\<lparr>finalizedText := None\<rparr>"

text \<open>
  What reaches the hook: the operator's two actions, the recogniser's events, and the
  passing of time.
\<close>

datatype capture_event =
    StartListening "dom_exception option" "dom_exception option"
  | StopListening
  | Result nat "jsstring list"
  | SpeechStart
  | SpeechEnd
  | End
  | ErrorEvent jsstring jsstring
  | Elapse nat

definition elapse :: "nat \<Rightarrow> SpeechRecognitionHook \<Rightarrow> SpeechRecognitionHook" where
  "elapse d r =
     (case speechEndTimeout r of
        None \<Rightarrow> r
      | Some left \<Rightarrow>
          if d < left then r\<lparr>speechEndTimeout := Some (left - d)\<rparr>
          else speechEndTimeout_fires (r\<lparr>speechEndTimeout := None\<rparr>))"

text \<open>The handler of an event, and the handler followed by the render it causes.\<close>

definition handler :: "capture_event \<Rightarrow> SpeechRecognitionHook \<Rightarrow> SpeechRecognitionHook" where
  "handler ev r =
     (case ev of
        StartListening start1 start2 \<Rightarrow> startListening start1 start2 r
      | StopListening \<Rightarrow> stopListening r
      | Result resultIndex results \<Rightarrow> onresult resultIndex results r
      | SpeechStart \<Rightarrow> onspeechstart r
      | SpeechEnd \<Rightarrow> onspeechend r
      | End \<Rightarrow> onend (r\<lparr>active := False\<rparr>)
      | ErrorEvent err msg \<Rightarrow> onerror err msg r
      | Elapse d \<Rightarrow> elapse d r)"

definition invoke :: "capture_event \<Rightarrow> SpeechRecognitionHook \<Rightarrow> SpeechRecognitionHook" where
  "invoke ev r = render r (handler ev r)"

text \<open>
  The browser dispatches a recogniser's events only while that recogniser has a running
  session; the operator's actions and the timer do not depend on it.
\<close>

definition recogniser_event :: "capture_event \<Rightarrow> bool" where
  "recogniser_event ev =
     (case ev of StartListening start1 start2 \<Rightarrow> False | StopListening \<Rightarrow> False
               | Elapse d \<Rightarrow> False | _ \<Rightarrow> True)"

definition deliver :: "capture_event \<Rightarrow> SpeechRecognitionHook \<Rightarrow> SpeechRecognitionHook" where
  "deliver ev r = (if recogniser_event ev \<and> \<not> active r then r else invoke ev r)"

text \<open>
  A sequence of events as the browser delivers them; and the handlers run on a sequence
  of events whether the recogniser has a session or not.
\<close>

definition run :: "capture_event list \<Rightarrow> SpeechRecognitionHook \<Rightarrow> SpeechRecognitionHook" where
  "run events r = fold deliver events r"

definition run_handlers ::
  "capture_event list \<Rightarrow> SpeechRecognitionHook \<Rightarrow> SpeechRecognitionHook" where
  "run_handlers events r = fold invoke events r"

section \<open>App.tsx\<close>

record App =
  appPhase :: AppPhase
  messages :: "ChatMessage list"
  lunaChat :: "Chat option"
  error :: "jsstring option"
  lunaStatusText :: jsstring
  isMuted :: bool
  readyTimers :: "nat list"

text \<open>
  The component with its two hooks and the service module it calls. \<open>readyTimers\<close> holds
  the delays of the pending \<open>setTimeout(() => setAppPhase(READY_TO_CHAT), 500)\<close>.
\<close>

record World =
  app :: App
  tts :: SpeechSynthesisHook
  recog :: SpeechRecognitionHook
  gemini :: geminiModule

text \<open>
  \<open>Number.prototype.toString\<close> on a clock reading: \<open>Date.now()\<close> is a non-negative
  integer far below \<open>1e21\<close>, so it prints in plain decimal.
\<close>

fun toString :: "nat \<Rightarrow> jsstring" where
  "toString n = (if n < 10 then [of_nat (48 + n)] else toString (n div 10) @ [of_nat (48 + n mod 10)])"

declare toString.simps [simp del]

definition addMessage :: "ChatMessageSender \<Rightarrow> jsstring \<Rightarrow> nat \<Rightarrow> App \<Rightarrow> App" where
  "addMessage sender text now a =
     a\<lparr>messages := messages a @
          [\<lparr>m_id = toString now, m_sender = sender, m_text = text,
            m_timestamp = Date (int now), m_audioUrl = None\<rparr>]\<rparr>"

text \<open>
  \<open>handleUserSpeechResult(text)\<close>, run to the end of its continuation. \<open>now0\<close> is the clock
  when the call starts, \<open>out\<close> how the network call ends, \<open>now1\<close> the clock when the
  awaited promise has resolved. The callback reads \<open>lunaChat\<close>, \<open>messages\<close>, \<open>isMuted\<close>,
  \<open>ttsSupported\<close> and \<open>lunaSpeak\<close> as they were when it was called.
\<close>

definition handleUserSpeechResult ::
  "jsstring \<Rightarrow> nat \<Rightarrow> api_outcome \<Rightarrow> nat \<Rightarrow> World \<Rightarrow> World" where
  "handleUserSpeechResult text now0 out now1 w =
     (if trim text = [] then w\<lparr>recog := resetTranscript (recog w)\<rparr>
      else
        (let a1 = (addMessage USER text now0 (app w))
                    \<lparr>appPhase := PROCESSING_USER_INPUT,
                     lunaStatusText := lit ''Processing your thoughts...''\<rparr>
         in case lunaChat (app w) of
              None \<Rightarrow> w\<lparr>app := a1\<rparr>
            | Some chat \<Rightarrow>
                (let a2 = a1\<lparr>appPhase := LUNA_THINKING,
                             lunaStatusText := lit ''Luna is thinking...''\<rparr>;
                     r2 = resetTranscript (recog w);
                     sent = sendUserMessageToLuna chat text (messages (app w)) out (int now1)
                              (gemini w);
                     lunaResponseText = fst sent
                 in if truthy lunaResponseText
                    then
                      (let a3 = (addMessage LUNA (the lunaResponseText) now1 a2)
                                  \<lparr>appPhase := LUNA_SPEAKING,
                                   lunaStatusText := lit ''Luna is speaking...''\<rparr>
                       in if \<not> isMuted (app w) \<and> isSupported (tts w)
                          then w\<lparr>app := a3, recog := r2, gemini := snd sent,
                                 tts := speak (the lunaResponseText) (tts w)\<rparr>
                          else w\<lparr>app := a3\<lparr>readyTimers := readyTimers a3 @ [500]\<rparr>,
                                 recog := r2, gemini := snd sent\<rparr>)
                    else
                      w\<lparr>app := (addMessage SYSTEM
                                  (lit ''Sorry, I couldn't get a response. Please try again.'')
                                  now1 a2)
                                 \<lparr>appPhase := ERROR,
                                  error := Some (lit ''Failed to get response from Luna.'')\<rparr>,
                        recog := r2, gemini := snd sent\<rparr>)))"

text \<open>
  The effect on \<open>[appPhase, isLunaSpeaking, isMuted]\<close> that ends the speaking phase.
\<close>

definition speakingPhaseEffect :: "World \<Rightarrow> World" where
  "speakingPhaseEffect w =
     (if appPhase (app w) = LUNA_SPEAKING \<and> \<not> isSpeaking (tts w) \<and> \<not> isMuted (app w)
      then w\<lparr>app := (app w)\<lparr>appPhase := READY_TO_CHAT, lunaStatusText := []\<rparr>\<rparr>
      else w)"

definition toggleMute :: "World \<Rightarrow> World" where
  "toggleMute w =
     (let newMutedState = \<not> isMuted (app w)
      in w\<lparr>app := (app w)\<lparr>isMuted := newMutedState\<rparr>,
           tts := (if newMutedState \<and> isSpeaking (tts w) then cancel (tts w) else tts w)\<rparr>)"

section \<open>Notions of the specification\<close>

text \<open>A text consisting only of whitespace; the empty text is one.\<close>

definition whitespace_only :: "jsstring \<Rightarrow> bool" where
  "whitespace_only text = list_all js_whitespace text"

text \<open>
  The failure classes of the specification, each with its fixed apology, and the class of
  an error message as the tests of the \<open>catch\<close> block decide it.
\<close>

datatype failure_kind = Timeout | RateLimit | Connectivity | Unknown

definition apology_for :: "failure_kind \<Rightarrow> jsstring" where
  "apology_for k =
     (case k of Timeout \<Rightarrow> MSG_TIMEOUT | RateLimit \<Rightarrow> MSG_QUOTA
              | Connectivity \<Rightarrow> MSG_CONNECTIVITY | Unknown \<Rightarrow> MSG_UNKNOWN)"

definition failure_class :: "thrown \<Rightarrow> failure_kind" where
  "failure_class e =
     (let errorMessage = message_of e
      in if js_includes errorMessage (lit ''timeout'') then Timeout
         else if js_includes errorMessage (lit ''quota'') \<or> js_includes errorMessage (lit ''limit'')
           then RateLimit
         else if js_includes errorMessage (lit ''network'')
                 \<or> js_includes errorMessage (lit ''connection'')
           then Connectivity
         else Unknown)"

text \<open>
  The failures of a send as the code reports them: the paths of \<open>sendUserMessageToLuna\<close>
  that write to \<open>console.error\<close>. There is no client; the response has no text; or the
  race ended in a rejection, which has one of the four classes. A text that the input
  guards turn away is no failure, nor is an answer.
\<close>

datatype send_failure = NoClient | EmptyResponse | Thrown failure_kind

definition failure_of :: "geminiModule \<Rightarrow> jsstring \<Rightarrow> api_outcome \<Rightarrow> send_failure option" where
  "failure_of m userMessageText out =
     (if getAI (geminiService m) = None then Some NoClient
      else if whitespace_only userMessageText \<or> 4000 < length userMessageText then None
      else case snd (promise_race out) of
             Rejected e \<Rightarrow> Some (Thrown (failure_class e))
           | Fulfilled response \<Rightarrow>
               if truthy response \<and> \<not> whitespace_only (the response) then None
               else Some EmptyResponse)"

definition fixed_message :: "send_failure \<Rightarrow> jsstring" where
  "fixed_message f =
     (case f of NoClient \<Rightarrow> MSG_UNAVAILABLE | EmptyResponse \<Rightarrow> MSG_EMPTY_RESPONSE
              | Thrown k \<Rightarrow> apology_for k)"

text \<open>A network call that has not settled when the 30 seconds are over.\<close>

definition unresolved_after_timeout :: "api_outcome \<Rightarrow> bool" where
  "unresolved_after_timeout out =
     (case out of Resolves t response \<Rightarrow> REQUEST_TIMEOUT_MS < t
                | Rejects t e \<Rightarrow> REQUEST_TIMEOUT_MS < t
                | Pending \<Rightarrow> True)"

text \<open>The module with another error count, everything else equal.\<close>

definition with_errorCount :: "nat \<Rightarrow> geminiModule \<Rightarrow> geminiModule" where
  "with_errorCount n m =
     m\<lparr>geminiService := (geminiService m)
          \<lparr>metrics := (metrics (geminiService m))\<lparr>errorCount := n\<rparr>\<rparr>\<rparr>"

definition system_messages :: "App \<Rightarrow> ChatMessage list" where
  "system_messages a = filter (\<lambda>msg. m_sender msg = SYSTEM) (messages a)"

text \<open>A message list whose timestamps are all instants.\<close>

definition valid_timestamps :: "ChatMessage list \<Rightarrow> bool" where
  "valid_timestamps msgs = list_all (\<lambda>msg. m_timestamp msg \<noteq> InvalidDate) msgs"

section \<open>Sample values\<close>

definition demo_service :: GeminiServiceManager where
  "demo_service = initializeService (Some (lit ''AIzaSample'')) None None"

definition demo_module :: geminiModule where
  "demo_module = \<lparr>geminiService = demo_service, apiCalls = [], warnings = []\<rparr>"

text \<open>The module after ten sends in a row that ran into the timeout.\<close>

definition demo_degraded :: geminiModule where
  "demo_degraded =
     ((\<lambda>m. snd (sendUserMessageToLuna \<lparr>systemInstruction = lit ''You are Luna'', history = []\<rparr>
                    (lit ''hello'') [] Pending 0 m)) ^^ 10) demo_module"

definition demo_chat :: Chat where
  "demo_chat = \<lparr>systemInstruction = lit ''You are Luna'', history = []\<rparr>"

text \<open>The hook after mounting: the first run of the effect has made a recogniser.\<close>

definition demo_recog :: SpeechRecognitionHook where
  "demo_recog =
     \<lparr>isListening = False, transcript = [], transcriptRef = [], finalizedText = None,
      micError = None, speechEndTimeout = None, active = False, lang = lit ''hi-IN'',
      stopCalls = 0, finalized = []\<rparr>"

text \<open>
  The operator starts listening, says "I feel tired", reported in two results, and is
  silent for 1.5 seconds.
\<close>

definition demo_utterance :: "capture_event list" where
  "demo_utterance =
     [Result 0 [lit ''I feel''], Result 1 [lit ''I feel'', lit '' tired''], SpeechEnd,
      Elapse 1500]"

definition demo_world :: World where
  "demo_world =
     \<lparr>app = \<lparr>appPhase = READY_TO_CHAT, messages = [], lunaChat = Some demo_chat,
             error = None, lunaStatusText = [], isMuted = False, readyTimers = []\<rparr>,
      tts = \<lparr>isSpeaking = False, isSupported = True, speechError = None, queue = []\<rparr>,
      recog = demo_recog,
      gemini = demo_module\<rparr>"

text \<open>
  Speech that starts after the operator has muted: an utterance is handed over, the
  operator mutes before the utterance's \<open>start\<close> event, then the event arrives.
\<close>

definition demo_muted_speaking :: World where
  "demo_muted_speaking =
     (let w1 = demo_world\<lparr>tts := speak (lit ''Hello'') (tts demo_world)\<rparr>;
          w2 = toggleMute w1
      in w2\<lparr>tts := utterance_onstart (tts w2)\<rparr>)"

text \<open>Speech that is playing while the operator has not muted.\<close>

definition demo_speaking :: World where
  "demo_speaking =
     (let w1 = demo_world\<lparr>tts := speak (lit ''Hello'') (tts demo_world)\<rparr>
      in w1\<lparr>tts := utterance_onstart (tts w1)\<rparr>)"

definition demo_message :: ChatMessage where
  "demo_message =
     \<lparr>m_id = lit ''1700000000000'', m_sender = USER, m_text = lit ''I feel tired'',
      m_timestamp = Date 1700000000000, m_audioUrl = None\<rparr>"

definition demo_storage :: localStorage where
  "demo_storage = \<lparr>items = (\<lambda>k. None), blocked = False, full = False\<rparr>"

section \<open>Supporting lemmas\<close>

subsection \<open>Strings\<close>

lemma all_dropWhile_iff: "(\<forall>x\<in>set (dropWhile P xs). P x) \<longleftrightarrow> (\<forall>x\<in>set xs. P x)"
  by (induction xs) auto

lemma trim_Nil_iff: "trim s = [] \<longleftrightarrow> whitespace_only s"
  by (simp add: trim_def all_dropWhile_iff list_all_iff whitespace_only_def)

lemma contextual_message_cases:
  "contextual_message e \<in> {MSG_TIMEOUT, MSG_QUOTA, MSG_CONNECTIVITY, MSG_UNKNOWN}"
  by (simp add: contextual_message_def)

lemma MSG_nonempty:
  "MSG_UNAVAILABLE \<noteq> []" "MSG_BLANK \<noteq> []" "MSG_TOO_LONG \<noteq> []" "MSG_EMPTY_RESPONSE \<noteq> []"
  "MSG_TIMEOUT \<noteq> []" "MSG_QUOTA \<noteq> []" "MSG_CONNECTIVITY \<noteq> []" "MSG_UNKNOWN \<noteq> []"
  by (simp_all add: MSG_UNAVAILABLE_def MSG_BLANK_def MSG_TOO_LONG_def MSG_EMPTY_RESPONSE_def
      MSG_TIMEOUT_def MSG_QUOTA_def MSG_CONNECTIVITY_def MSG_UNKNOWN_def lit_def)

lemma contextual_message_nonempty: "contextual_message e \<noteq> []"
  using contextual_message_cases [of e] MSG_nonempty by auto

lemma contextual_message_class: "contextual_message (message_of e) = apology_for (failure_class e)"
  by (simp add: contextual_message_def apology_for_def failure_class_def Let_def)

subsection \<open>The service\<close>

lemma send_truthy: "truthy (fst (sendUserMessageToLuna chat input h out now m))"
  by (auto simp: sendUserMessageToLuna_def truthy_def Let_def MSG_nonempty
      contextual_message_nonempty split: option.splits prod.splits settled.splits)

lemma demo_ai: "getAI (geminiService demo_module) = Some \<lparr>apiKey = lit ''AIzaSample''\<rparr>"
  by (simp add: demo_module_def demo_service_def initializeService_def getAI_def js_or_def
      truthy_def lit_def Let_def)

lemma demo_healthy: "isHealthy (geminiService demo_module)"
  by (simp add: demo_module_def demo_service_def initializeService_def isHealthy_def js_or_def
      truthy_def lit_def Let_def)

lemma send_blank:
  assumes "getAI (geminiService m) \<noteq> None" "whitespace_only input"
  shows "fst (sendUserMessageToLuna chat input h out now m) = Some MSG_BLANK"
    and "apiCalls (snd (sendUserMessageToLuna chat input h out now m)) = apiCalls m"
  using assms
  by (auto simp: sendUserMessageToLuna_def Let_def warn_def trim_Nil_iff split: option.splits)

lemma send_too_long:
  assumes "getAI (geminiService m) \<noteq> None" "\<not> whitespace_only input" "length input > 4000"
  shows "fst (sendUserMessageToLuna chat input h out now m) = Some MSG_TOO_LONG"
    and "apiCalls (snd (sendUserMessageToLuna chat input h out now m)) = apiCalls m"
  using assms
  by (auto simp: sendUserMessageToLuna_def Let_def warn_def trim_Nil_iff whitespace_only_def split: option.splits)

lemma send_unavailable:
  assumes "getAI (geminiService m) = None"
  shows "sendUserMessageToLuna chat input h out now m = (Some MSG_UNAVAILABLE, m)"
  using assms by (simp add: sendUserMessageToLuna_def)

text \<open>A message that passes the guards is dispatched; a failed race gives the apology.\<close>

lemma send_rejected:
  assumes "getAI (geminiService m) \<noteq> None" "\<not> whitespace_only input" "length input \<le> 4000"
    and "snd (promise_race out) = Rejected e"
  shows "fst (sendUserMessageToLuna chat input h out now m) = Some (contextual_message (message_of e))"
    and "lastError (metrics (geminiService (snd (sendUserMessageToLuna chat input h out now m))))
           = Some (lit ''API call failed: '' @ message_of e)"
    and "errorCount (metrics (geminiService (snd (sendUserMessageToLuna chat input h out now m))))
           = errorCount (metrics (geminiService m)) + 1"
  using assms
  by (auto simp: sendUserMessageToLuna_def Let_def warn_def trim_Nil_iff whitespace_only_def
      logError_def split: option.splits prod.splits settled.splits)

lemma race_timeout:
  "unresolved_after_timeout out \<Longrightarrow>
     promise_race out = (REQUEST_TIMEOUT_MS, Rejected (ErrorObj (lit ''Request timeout'')))"
  by (cases out) (auto simp: unresolved_after_timeout_def promise_race_def)

lemma timeout_message: "contextual_message (lit ''Request timeout'') = MSG_TIMEOUT"
  by (simp add: contextual_message_def lit_def)

lemma ws_replicate: "whitespace_only (replicate n 0x20)"
  by (simp add: whitespace_only_def list_all_iff js_whitespace_def)

lemma not_ws_replicate: "\<not> whitespace_only (replicate 4001 0x61)"
  by (simp add: whitespace_only_def list_all_iff js_whitespace_def)

subsection \<open>The controller\<close>

lemma handle_blank:
  "whitespace_only input \<Longrightarrow>
     handleUserSpeechResult input now0 out now1 w = w\<lparr>recog := resetTranscript (recog w)\<rparr>"
  by (simp add: handleUserSpeechResult_def trim_Nil_iff)

lemma handle_no_chat:
  "\<not> whitespace_only input \<Longrightarrow> lunaChat (app w) = None \<Longrightarrow>
     handleUserSpeechResult input now0 out now1 w =
       w\<lparr>app := (addMessage USER input now0 (app w))
                  \<lparr>appPhase := PROCESSING_USER_INPUT,
                   lunaStatusText := lit ''Processing your thoughts...''\<rparr>\<rparr>"
  by (simp add: handleUserSpeechResult_def trim_Nil_iff Let_def)

text \<open>With a chat at hand the handler always ends in its branch for a response.\<close>

lemma handle_with_chat:
  assumes "\<not> whitespace_only input" "lunaChat (app w) = Some chat"
  shows "appPhase (app (handleUserSpeechResult input now0 out now1 w)) = LUNA_SPEAKING"
    and "error (app (handleUserSpeechResult input now0 out now1 w)) = error (app w)"
    and "messages (app (handleUserSpeechResult input now0 out now1 w)) =
           messages (app w) @
           [\<lparr>m_id = toString now0, m_sender = USER, m_text = input,
             m_timestamp = Date (int now0), m_audioUrl = None\<rparr>,
            \<lparr>m_id = toString now1, m_sender = LUNA,
             m_text = the (fst (sendUserMessageToLuna chat input (messages (app w)) out
                                  (int now1) (gemini w))),
             m_timestamp = Date (int now1), m_audioUrl = None\<rparr>]"
    and "gemini (handleUserSpeechResult input now0 out now1 w) =
           snd (sendUserMessageToLuna chat input (messages (app w)) out (int now1) (gemini w))"
  using assms send_truthy [of chat input "messages (app w)" out "int now1" "gemini w"]
  by (simp_all add: handleUserSpeechResult_def trim_Nil_iff Let_def addMessage_def)

lemma ws_sample: "whitespace_only (lit '' '' @ [0x09, 0x0A, 0xA0, 0x3000])"
  by (simp add: whitespace_only_def js_whitespace_def lit_def)

lemma apology_distinct:
  "distinct [MSG_TIMEOUT, MSG_QUOTA, MSG_CONNECTIVITY, MSG_UNKNOWN]"
  by (simp add: MSG_TIMEOUT_def MSG_QUOTA_def MSG_CONNECTIVITY_def MSG_UNKNOWN_def lit_def)

lemma hello_not_blank: "\<not> whitespace_only (lit ''hello'')"
  by (simp add: whitespace_only_def js_whitespace_def lit_def)

lemma demo_world_ai: "getAI (geminiService (gemini demo_world)) \<noteq> None"
  using demo_ai by (simp add: demo_world_def)

lemma quota_class: "failure_class (ErrorObj (lit ''429: quota exceeded'')) = RateLimit"
  by (simp add: failure_class_def message_of_def lit_def)

lemma limit_class: "failure_class (ErrorObj (lit ''rate limit reached'')) = RateLimit"
  by (simp add: failure_class_def message_of_def lit_def)

lemma hello_length: "length (lit ''hello'') \<le> 4000"
  by (simp add: lit_def)

lemma demo_world_chat: "lunaChat (app demo_world) = Some demo_chat"
  by (simp add: demo_world_def)

lemma race_rejects_early:
  "t < 30000 \<Longrightarrow> snd (promise_race (Rejects t e)) = Rejected e"
  by (simp add: promise_race_def REQUEST_TIMEOUT_MS_def)

subsection \<open>Metrics\<close>

lemma send_keeps_ai:
  "getAI (geminiService (snd (sendUserMessageToLuna chat input h out now m)))
     = getAI (geminiService m)"
  by (auto simp: sendUserMessageToLuna_def Let_def warn_def getAI_def logError_def
      recordResponseTime_def split: option.splits prod.splits settled.splits)

text \<open>The request counter and the time of the last success stay as they are.\<close>

lemma send_keeps_requestCount:
  "requestCount (getServiceMetrics (snd (sendUserMessageToLuna chat input h out now m)))
     = requestCount (getServiceMetrics m)"
  by (auto simp: sendUserMessageToLuna_def Let_def warn_def getServiceMetrics_def getMetrics_def
      logError_def recordResponseTime_def split: option.splits prod.splits settled.splits)

lemma send_keeps_lastSuccessfulRequest:
  "lastSuccessfulRequest (getServiceMetrics (snd (sendUserMessageToLuna chat input h out now m)))
     = lastSuccessfulRequest (getServiceMetrics m)"
  by (auto simp: sendUserMessageToLuna_def Let_def warn_def getServiceMetrics_def getMetrics_def
      logError_def recordResponseTime_def split: option.splits prod.splits settled.splits)

lemma send_errorCount_mono:
  "errorCount (getServiceMetrics m)
     \<le> errorCount (getServiceMetrics (snd (sendUserMessageToLuna chat input h out now m)))"
  by (auto simp: sendUserMessageToLuna_def Let_def warn_def getServiceMetrics_def getMetrics_def
      logError_def recordResponseTime_def split: option.splits prod.splits settled.splits)

lemma recordResponseTime_window:
  "length (responseTimes s) \<le> 100 \<Longrightarrow>
     length (responseTimes (recordResponseTime t s)) \<le> 100
     \<and> last (responseTimes (recordResponseTime t s)) = t"
  by (cases "responseTimes s") (auto simp: recordResponseTime_def Let_def)

lemma hello_trim: "trim (lit ''hello'') = lit ''hello''"
  by (simp add: trim_def js_whitespace_def lit_def)

lemma hi_there_trim: "trim (lit ''Hi there'') = lit ''Hi there''"
  by (simp add: trim_def js_whitespace_def lit_def)

subsection \<open>Health\<close>

lemma with_errorCount_ai [simp]:
  "getAI (geminiService (with_errorCount n m)) = getAI (geminiService m)"
  by (simp add: with_errorCount_def getAI_def)

lemma send_ignores_errorCount:
  "fst (sendUserMessageToLuna chat input h out now (with_errorCount n m))
     = fst (sendUserMessageToLuna chat input h out now m)"
  "apiCalls (snd (sendUserMessageToLuna chat input h out now (with_errorCount n m)))
     = apiCalls (snd (sendUserMessageToLuna chat input h out now m))"
  by (auto simp: sendUserMessageToLuna_def Let_def warn_def with_errorCount_def getAI_def
      split: option.splits prod.splits settled.splits)

lemma init_ignores_errorCount:
  "fst (initLunaChat p c name hist (with_errorCount n m)) = fst (initLunaChat p c name hist m)"
  by (auto simp: initLunaChat_def Let_def warn_def with_errorCount_def getAI_def
      split: option.splits)

lemma send_warnings:
  "getAI (geminiService m) \<noteq> None \<Longrightarrow>
   warnings (snd (sendUserMessageToLuna chat input h out now m)) =
     warnings m @ (if isServiceHealthy m then []
                   else [lit ''Service health degraded. Attempting request anyway.''])"
  by (auto simp: sendUserMessageToLuna_def Let_def warn_def isServiceHealthy_def
      split: option.splits prod.splits settled.splits)

lemma init_warnings:
  "getAI (geminiService m) \<noteq> None \<Longrightarrow>
   warnings (snd (initLunaChat p c name hist m)) =
     warnings m @ (if isServiceHealthy m then []
                   else [lit ''Gemini AI service health check failed. Proceeding with caution.''])"
  by (auto simp: initLunaChat_def Let_def warn_def isServiceHealthy_def split: option.splits)

lemma failed_send_counts:
  assumes "getAI (geminiService m) \<noteq> None"
  shows "errorCount (getServiceMetrics (snd (sendUserMessageToLuna chat (lit ''hello'') h Pending now m)))
           = errorCount (getServiceMetrics m) + 1"
proof -
  have r: "snd (promise_race Pending) = Rejected (ErrorObj (lit ''Request timeout''))"
    by (simp add: promise_race_def)
  show ?thesis
    using send_rejected(3) [OF assms hello_not_blank hello_length r]
    by (simp add: getServiceMetrics_def getMetrics_def)
qed

lemma failed_sends_count:
  assumes "getAI (geminiService m) \<noteq> None"
  shows "getAI (geminiService (((\<lambda>m. snd (sendUserMessageToLuna chat (lit ''hello'') h Pending now m)) ^^ k) m))
           \<noteq> None
       \<and> errorCount (getServiceMetrics (((\<lambda>m. snd (sendUserMessageToLuna chat (lit ''hello'') h Pending now m)) ^^ k) m))
           = errorCount (getServiceMetrics m) + k"
  using assms
  by (induction k) (simp_all add: send_keeps_ai failed_send_counts)

lemma demo_degraded_count:
  "getAI (geminiService demo_degraded) \<noteq> None"
  "errorCount (getServiceMetrics demo_degraded) = 10"
proof -
  have a: "getAI (geminiService demo_module) \<noteq> None" using demo_ai by simp
  have z: "errorCount (getServiceMetrics demo_module) = 0"
    by (simp add: getServiceMetrics_def getMetrics_def demo_module_def demo_service_def
        initializeService_def js_or_def truthy_def lit_def Let_def)
  from failed_sends_count [OF a, where k = 10] z
  show "getAI (geminiService demo_degraded) \<noteq> None"
    "errorCount (getServiceMetrics demo_degraded) = 10"
    by (simp_all add: demo_degraded_def)
qed

subsection \<open>Mute\<close>

lemma toggleMute_flag: "isMuted (app (toggleMute w)) = (\<not> isMuted (app w))"
  by (simp add: toggleMute_def Let_def)

lemma toggleMute_never_starts:
  "(isSpeaking (tts (toggleMute w)) \<longrightarrow> isSpeaking (tts w))
   \<and> (queue (tts (toggleMute w)) = queue (tts w) \<or> queue (tts (toggleMute w)) = [])"
  by (simp add: toggleMute_def Let_def cancel_def)

subsection \<open>Storage\<close>

lemma rehydrate_toJSON:
  "m_timestamp msg \<noteq> InvalidDate \<Longrightarrow> rehydrate (toJSON msg) = msg"
  by (cases "m_timestamp msg") (simp_all add: rehydrate_def toJSON_def new_Date_def)

lemma rehydrate_toJSON_fields:
  "m_id (rehydrate (toJSON msg)) = m_id msg \<and> m_sender (rehydrate (toJSON msg)) = m_sender msg
   \<and> m_text (rehydrate (toJSON msg)) = m_text msg
   \<and> m_audioUrl (rehydrate (toJSON msg)) = m_audioUrl msg"
  by (simp add: rehydrate_def toJSON_def)

lemma map_rehydrate_toJSON:
  "valid_timestamps msgs \<Longrightarrow> map (rehydrate \<circ> toJSON) msgs = msgs"
  by (induction msgs) (simp_all add: valid_timestamps_def rehydrate_toJSON)

lemma load_after_save:
  assumes "symbolicNameId \<noteq> []" "\<not> blocked ls" "\<not> full ls"
  shows "loadChatHistory symbolicNameId (saveChatHistory symbolicNameId msgs ls)
           = Some (map (rehydrate \<circ> toJSON) msgs)"
  using assms
  by (simp add: loadChatHistory_def saveChatHistory_def setItem_def getItem_def
      JSON_stringify_def JSON_parse_def text_truthy_def)

subsection \<open>Speech capture\<close>

lemma render_fields:
  "transcript (render b a) = transcript a" "transcriptRef (render b a) = transcript a"
  "finalized (render b a) = finalized a" "isListening (render b a) = isListening a"
  "finalizedText (render b a) = finalizedText a" "stopCalls (render b a) = stopCalls a"
  "active (render b a) = (active a \<and> isListening a = isListening b)"
  by (simp_all add: render_def recognitionEffect_def syncTranscriptRef_def
      clearSpeechEndTimeout_def Let_def)

text \<open>Without a session nothing is heard, and nothing gets a session to last.\<close>

lemma startListening_silent:
  assumes "\<not> active r" "transcript r = []" "finalized r = []"
  shows "transcript (startListening s1 s2 r) = [] \<and> finalized (startListening s1 s2 r) = []
       \<and> (active (startListening s1 s2 r) \<longrightarrow>
             isListening (startListening s1 s2 r) \<and> \<not> isListening r)"
  using assms
  by (auto simp: startListening_def clearSpeechEndTimeout_def Let_def split: option.splits)

lemma stopListening_silent:
  assumes "\<not> active r" "transcript r = []" "transcriptRef r = []" "finalized r = []"
  shows "transcript (stopListening r) = [] \<and> finalized (stopListening r) = []
       \<and> \<not> active (stopListening r)"
  using assms
  by (simp add: stopListening_def recognition_stop_def clearSpeechEndTimeout_def trim_def Let_def)

lemma elapse_silent:
  assumes "\<not> active r" "transcript r = []" "transcriptRef r = []" "finalized r = []"
  shows "transcript (elapse d r) = [] \<and> finalized (elapse d r) = [] \<and> \<not> active (elapse d r)"
  using assms
  by (simp add: elapse_def speechEndTimeout_fires_def recognition_stop_def Let_def
      split: option.splits)

lemma deliver_silent:
  assumes "\<not> active r" "transcript r = []" "transcriptRef r = []" "finalized r = []"
  shows "\<not> active (deliver ev r) \<and> transcript (deliver ev r) = []
       \<and> transcriptRef (deliver ev r) = [] \<and> finalized (deliver ev r) = []"
proof (cases ev)
  case (StartListening s1 s2)
  then show ?thesis
    using assms startListening_silent [OF assms(1,2,4), of s1 s2]
    by (auto simp: deliver_def recogniser_event_def invoke_def handler_def render_fields)
next
  case StopListening
  then show ?thesis
    using assms stopListening_silent [OF assms]
    by (simp add: deliver_def recogniser_event_def invoke_def handler_def render_fields)
next
  case (Elapse d)
  then show ?thesis
    using assms elapse_silent [OF assms, of d]
    by (simp add: deliver_def recogniser_event_def invoke_def handler_def render_fields)
qed (use assms in \<open>simp_all add: deliver_def recogniser_event_def\<close>)

lemma run_silent:
  assumes "\<not> active r" "transcript r = []" "transcriptRef r = []" "finalized r = []"
  shows "\<not> active (run evs r) \<and> transcript (run evs r) = []
       \<and> transcriptRef (run evs r) = [] \<and> finalized (run evs r) = []"
  using assms
proof (induction evs arbitrary: r)
  case Nil
  then show ?case by (simp add: run_def)
next
  case (Cons ev evs)
  have "run (ev # evs) r = run evs (deliver ev r)" by (simp add: run_def)
  with Cons.IH [of "deliver ev r"] deliver_silent [OF Cons.prems, of ev]
  show ?case by simp
qed

text \<open>From the mounted hook, whatever the operator and the browser do.\<close>

lemma capture_never_finalizes: "finalized (run evs demo_recog) = []"
  using run_silent [of demo_recog evs] by (simp add: demo_recog_def)

lemma started: "run [StartListening None None] demo_recog
   = demo_recog\<lparr>isListening := True\<rparr>"
  by (simp add: run_def deliver_def recogniser_event_def invoke_def handler_def
      startListening_def render_def recognitionEffect_def syncTranscriptRef_def
      clearSpeechEndTimeout_def demo_recog_def Let_def)

subsection \<open>Failures of a send\<close>

lemma trim_nonempty_iff: "0 < length (trim s) \<longleftrightarrow> \<not> whitespace_only s"
  using trim_Nil_iff [of s] by auto

lemma send_failure_message:
  assumes "failure_of m input out = Some f"
  shows "fst (sendUserMessageToLuna chat input h out now m) = Some (fixed_message f)"
proof (cases "getAI (geminiService m)")
  case None
  with assms show ?thesis
    by (simp add: failure_of_def fixed_message_def send_unavailable)
next
  case (Some client)
  with assms have g: "\<not> whitespace_only input" "length input \<le> 4000"
    by (auto simp: failure_of_def split: if_splits)
  show ?thesis
  proof (cases "snd (promise_race out)")
    case (Rejected e)
    with assms Some g have "f = Thrown (failure_class e)"
      by (simp add: failure_of_def)
    with send_rejected(1) [of m input out e chat h now] Some g Rejected show ?thesis
      by (simp add: fixed_message_def contextual_message_class)
  next
    case (Fulfilled response)
    with assms Some g have e: "f = EmptyResponse"
      "\<not> (truthy response \<and> \<not> whitespace_only (the response))"
      by (auto simp: failure_of_def split: if_splits)
    with Some g Fulfilled show ?thesis
      by (cases "promise_race out")
        (auto simp: sendUserMessageToLuna_def Let_def fixed_message_def trim_Nil_iff
          whitespace_only_def)
  qed
qed

text \<open>
  Apart from the missing client, the failures are the sends that raise the error count.
\<close>

lemma send_failure_is_logged:
  assumes "getAI (geminiService m) \<noteq> None"
  shows "errorCount (getServiceMetrics (snd (sendUserMessageToLuna chat input h out now m)))
           = errorCount (getServiceMetrics m)
               + (if failure_of m input out = None then 0 else 1)"
  using assms
  by (cases "promise_race out")
    (auto simp: sendUserMessageToLuna_def failure_of_def Let_def warn_def getServiceMetrics_def
      getMetrics_def logError_def recordResponseTime_def trim_Nil_iff whitespace_only_def
      split: option.splits settled.splits)

lemma fixed_messages_distinct:
  "distinct [MSG_UNAVAILABLE, MSG_EMPTY_RESPONSE, MSG_TIMEOUT, MSG_QUOTA, MSG_CONNECTIVITY,
             MSG_UNKNOWN]"
  by (simp add: MSG_UNAVAILABLE_def MSG_EMPTY_RESPONSE_def MSG_TIMEOUT_def MSG_QUOTA_def
      MSG_CONNECTIVITY_def MSG_UNKNOWN_def lit_def)

lemma fixed_message_inj: "fixed_message f = fixed_message g \<Longrightarrow> f = g"
  using fixed_messages_distinct
  by (cases f; cases g)
    (auto simp: fixed_message_def apology_for_def split: failure_kind.splits)

lemma timeout_class: "failure_class (ErrorObj (lit ''Request timeout'')) = Timeout"
  by (simp add: failure_class_def message_of_def lit_def)

lemma demo_failure_quota:
  "failure_of (gemini demo_world) (lit ''hello'')
     (Rejects 40 (ErrorObj (lit ''429: quota exceeded''))) = Some (Thrown RateLimit)"
  using demo_world_ai hello_not_blank hello_length
  by (simp add: failure_of_def race_rejects_early quota_class)

lemma demo_failure_limit:
  "failure_of (gemini demo_world) (lit ''hello'')
     (Rejects 90 (ErrorObj (lit ''rate limit reached''))) = Some (Thrown RateLimit)"
  using demo_world_ai hello_not_blank hello_length
  by (simp add: failure_of_def race_rejects_early limit_class)

section \<open>The claims\<close>

text \<open>
  C3 (as amended). On an initialised service a text that is empty or whitespace-only gets
  the canned guidance string, and a text of more than 4000 code units that is not
  whitespace-only gets the canned "too long" string; on a service without a client the
  answer is the canned "technical difficulties" string. In all three cases the answer
  does not depend on the network and nothing is handed to the network client.
\<close>

theorem C3_guards_without_network:
  "(getAI (geminiService m) = None \<longrightarrow>
      fst (sendUserMessageToLuna chat input h out now m) = Some MSG_UNAVAILABLE) \<and>
   (getAI (geminiService m) \<noteq> None \<and> whitespace_only input \<longrightarrow>
      fst (sendUserMessageToLuna chat input h out now m) = Some MSG_BLANK) \<and>
   (getAI (geminiService m) \<noteq> None \<and> \<not> whitespace_only input \<and> 4000 < length input \<longrightarrow>
      fst (sendUserMessageToLuna chat input h out now m) = Some MSG_TOO_LONG) \<and>
   (getAI (geminiService m) = None \<or> whitespace_only input \<or> 4000 < length input \<longrightarrow>
      apiCalls (snd (sendUserMessageToLuna chat input h out now m)) = apiCalls m)"
  using send_blank send_too_long send_unavailable
  by (metis fst_conv snd_conv)

theorem C3_guards_without_network_witness:
  "fst (sendUserMessageToLuna demo_chat (replicate 4001 0x61) [] (Resolves 5 (Some (lit ''Hi''))) 0 demo_module)
     = Some MSG_TOO_LONG \<and>
   apiCalls (snd (sendUserMessageToLuna demo_chat (replicate 4001 0x61) [] (Resolves 5 (Some (lit ''Hi''))) 0 demo_module)) = []"
  using C3_guards_without_network [where m = demo_module and input = "replicate 4001 0x61"
      and chat = demo_chat and h = "[]" and out = "Resolves 5 (Some (lit ''Hi''))" and now = 0]
    not_ws_replicate demo_ai
  by (simp add: demo_module_def)

theorem C3_counterexample:
  "4000 < length (replicate 4001 (0x20 :: 16 word)) \<and>
   fst (sendUserMessageToLuna demo_chat (replicate 4001 0x20) [] Pending 0 demo_module)
     \<noteq> Some MSG_TOO_LONG"
proof -
  have "fst (sendUserMessageToLuna demo_chat (replicate 4001 0x20) [] Pending 0 demo_module)
          = Some MSG_BLANK"
    using send_blank(1) [of demo_module "replicate 4001 0x20"] demo_ai ws_replicate by simp
  moreover have "MSG_BLANK \<noteq> MSG_TOO_LONG"
    by (simp add: MSG_BLANK_def MSG_TOO_LONG_def lit_def)
  ultimately show ?thesis by simp
qed

text \<open>
  C4. A finalized utterance that consists only of whitespace makes
  \<open>handleUserSpeechResult\<close> append no message, call no client and leave the phase as it
  was: the whole component state, the service module and the speech output stay as they
  were (only the live transcript is reset).
\<close>

theorem C4_blank_utterance_is_dropped:
  assumes "whitespace_only input"
  shows "messages (app (handleUserSpeechResult input now0 out now1 w)) = messages (app w)
       \<and> apiCalls (gemini (handleUserSpeechResult input now0 out now1 w)) = apiCalls (gemini w)
       \<and> appPhase (app (handleUserSpeechResult input now0 out now1 w)) = appPhase (app w)
       \<and> app (handleUserSpeechResult input now0 out now1 w) = app w
       \<and> gemini (handleUserSpeechResult input now0 out now1 w) = gemini w
       \<and> tts (handleUserSpeechResult input now0 out now1 w) = tts w"
  using assms by (simp add: handle_blank)

theorem C4_blank_utterance_is_dropped_witness:
  "whitespace_only (lit '' '' @ [0x09, 0x0A, 0xA0, 0x3000])
   \<and> messages (app (handleUserSpeechResult (lit '' '' @ [0x09, 0x0A, 0xA0, 0x3000]) 7
        (Resolves 5 (Some (lit ''Hi''))) 9 demo_world)) = []
   \<and> apiCalls (gemini (handleUserSpeechResult (lit '' '' @ [0x09, 0x0A, 0xA0, 0x3000]) 7
        (Resolves 5 (Some (lit ''Hi''))) 9 demo_world)) = []
   \<and> appPhase (app (handleUserSpeechResult (lit '' '' @ [0x09, 0x0A, 0xA0, 0x3000]) 7
        (Resolves 5 (Some (lit ''Hi''))) 9 demo_world)) = READY_TO_CHAT"
  using C4_blank_utterance_is_dropped [OF ws_sample, of 7 "Resolves 5 (Some (lit ''Hi''))" 9 demo_world]
    ws_sample
  by (simp add: demo_world_def demo_module_def)

text \<open>
  C10. \<open>sendUserMessageToLuna\<close> always resolves with a string that is not empty, whatever
  the chat, the input, the state of the service and the outcome of the network call;
  so the controller never takes its branch for a missing response: the handler sets no
  error, appends no system message and never moves the phase to \<open>ERROR\<close>.
\<close>

theorem C10_send_always_answers:
  "(\<exists>s. fst (sendUserMessageToLuna chat input h out now m) = Some s \<and> s \<noteq> [])
   \<and> error (app (handleUserSpeechResult input now0 out now1 w)) = error (app w)
   \<and> system_messages (app (handleUserSpeechResult input now0 out now1 w)) = system_messages (app w)
   \<and> appPhase (app (handleUserSpeechResult input now0 out now1 w))
        \<in> {appPhase (app w), PROCESSING_USER_INPUT, LUNA_SPEAKING}"
proof -
  have 1: "\<exists>s. fst (sendUserMessageToLuna chat input h out now m) = Some s \<and> s \<noteq> []"
    using send_truthy [of chat input h out now m]
    by (auto simp: truthy_def split: option.splits)
  have 2: "error (app (handleUserSpeechResult input now0 out now1 w)) = error (app w)
   \<and> system_messages (app (handleUserSpeechResult input now0 out now1 w)) = system_messages (app w)
   \<and> appPhase (app (handleUserSpeechResult input now0 out now1 w))
        \<in> {appPhase (app w), PROCESSING_USER_INPUT, LUNA_SPEAKING}"
  proof (cases "whitespace_only input")
    case True
    then show ?thesis by (simp add: handle_blank)
  next
    case False
    show ?thesis
    proof (cases "lunaChat (app w)")
      case None
      with False show ?thesis
        by (simp add: handle_no_chat addMessage_def system_messages_def)
    next
      case (Some chat')
      with False show ?thesis
        using handle_with_chat [of input w chat' now0 out now1]
        by (simp add: system_messages_def)
    qed
  qed
  from 1 2 show ?thesis by blast
qed


theorem C10_send_always_answers_witness:
  "fst (sendUserMessageToLuna demo_chat (lit ''hello'') [] Pending 0 demo_module) \<noteq> None
   \<and> appPhase (app (handleUserSpeechResult (lit ''hello'') 7 Pending 9 demo_world)) \<noteq> ERROR
   \<and> error (app (handleUserSpeechResult (lit ''hello'') 7 Pending 9 demo_world)) = None"
  using C10_send_always_answers [where chat = demo_chat and input = "lit ''hello''"
      and h = "[]" and out = Pending and now = 0 and m = demo_module
      and ?now0.0 = 7 and ?now1.0 = 9 and w = demo_world]
  by (auto simp: demo_world_def)

text \<open>
  C1 (as amended). A network call that is still unresolved after 30 seconds loses the race
  against the timer: \<open>sendUserMessageToLuna\<close> resolves with the fixed timeout apology and
  records the failure as its last error. The controller does not move to \<open>ERROR\<close>: it
  appends the apology as a message of Luna, sets the phase to \<open>LUNA_SPEAKING\<close>, from where
  the speaking effect can only lead to \<open>READY_TO_CHAT\<close>, and leaves its error unset.
\<close>

theorem C1_timeout_is_answered_not_failed:
  assumes "getAI (geminiService (gemini w)) \<noteq> None" and "lunaChat (app w) = Some chat"
    and "\<not> whitespace_only input" and "length input \<le> 4000"
    and "unresolved_after_timeout out"
  shows "fst (sendUserMessageToLuna chat input h out now (gemini w)) = Some MSG_TIMEOUT
       \<and> lastError (metrics (geminiService (gemini (handleUserSpeechResult input now0 out now1 w))))
           = Some (lit ''API call failed: Request timeout'')
       \<and> m_sender (last (messages (app (handleUserSpeechResult input now0 out now1 w)))) = LUNA
       \<and> m_text (last (messages (app (handleUserSpeechResult input now0 out now1 w)))) = MSG_TIMEOUT
       \<and> appPhase (app (handleUserSpeechResult input now0 out now1 w)) = LUNA_SPEAKING
       \<and> error (app (handleUserSpeechResult input now0 out now1 w)) = error (app w)
       \<and> appPhase (app (speakingPhaseEffect (handleUserSpeechResult input now0 out now1 w)))
           \<in> {LUNA_SPEAKING, READY_TO_CHAT}"
proof -
  have r: "snd (promise_race out) = Rejected (ErrorObj (lit ''Request timeout''))"
    using race_timeout [OF assms(5)] by simp
  have m: "contextual_message (message_of (ErrorObj (lit ''Request timeout''))) = MSG_TIMEOUT"
    by (simp add: message_of_def timeout_message)
  have a: "fst (sendUserMessageToLuna chat input k out t (gemini w)) = Some MSG_TIMEOUT" for k t
    using send_rejected(1) [OF assms(1,3,4) r] m by simp
  have b: "lastError (metrics (geminiService
             (snd (sendUserMessageToLuna chat input k out t (gemini w)))))
           = Some (lit ''API call failed: Request timeout'')" for k t
    using send_rejected(2) [OF assms(1,3,4) r] by (simp add: message_of_def lit_def)
  show ?thesis
    using handle_with_chat [OF assms(3,2), of now0 out now1] a b
    by (simp add: speakingPhaseEffect_def)
qed

theorem C1_timeout_is_answered_not_failed_witness:
  "fst (sendUserMessageToLuna demo_chat (lit ''hello'') [] Pending 0 (gemini demo_world))
     = Some MSG_TIMEOUT
   \<and> appPhase (app (handleUserSpeechResult (lit ''hello'') 7 (Resolves 30001 (Some (lit ''Hi''))) 9
        demo_world)) = LUNA_SPEAKING"
proof -
  have p: "unresolved_after_timeout Pending"
    by (simp add: unresolved_after_timeout_def)
  have q: "unresolved_after_timeout (Resolves 30001 (Some (lit ''Hi'')))"
    by (simp add: unresolved_after_timeout_def REQUEST_TIMEOUT_MS_def)
  from C1_timeout_is_answered_not_failed
         [OF demo_world_ai demo_world_chat hello_not_blank hello_length p,
          where h = "[]" and now = 0]
       C1_timeout_is_answered_not_failed
         [OF demo_world_ai demo_world_chat hello_not_blank hello_length q,
          where ?now0.0 = 7 and ?now1.0 = 9]
  show ?thesis by simp
qed

theorem C1_counterexample:
  "unresolved_after_timeout Pending
   \<and> appPhase (app (handleUserSpeechResult (lit ''hello'') 7 Pending 9 demo_world)) \<noteq> ERROR"
proof -
  have "appPhase (app (handleUserSpeechResult (lit ''hello'') 7 Pending 9 demo_world))
          = LUNA_SPEAKING"
    using handle_with_chat(1) [of "lit ''hello''" demo_world demo_chat 7 Pending 9]
      hello_not_blank
    by (simp add: demo_world_def)
  then show ?thesis by (simp add: unresolved_after_timeout_def)
qed


text \<open>
  C8 (as amended). On an initialised service \<open>isHealthy()\<close> is false exactly when the
  error count has reached 10 (ten errors are enough, not eleven). An unhealthy service
  only adds a warning line: the answer of a send, what is handed to the network client
  and the chat that \<open>initLunaChat\<close> creates are the same for every error count.
\<close>

theorem C8_unhealthy_from_ten_errors_only_warns:
  assumes "getAI (geminiService m) \<noteq> None"
  shows "(\<not> isServiceHealthy m) = (10 \<le> errorCount (getServiceMetrics m))
       \<and> fst (sendUserMessageToLuna chat input h out now (with_errorCount n m))
           = fst (sendUserMessageToLuna chat input h out now m)
       \<and> apiCalls (snd (sendUserMessageToLuna chat input h out now (with_errorCount n m)))
           = apiCalls (snd (sendUserMessageToLuna chat input h out now m))
       \<and> fst (initLunaChat p c name hist (with_errorCount n m))
           = fst (initLunaChat p c name hist m)
       \<and> warnings (snd (sendUserMessageToLuna chat input h out now m)) =
           warnings m @ (if isServiceHealthy m then []
                         else [lit ''Service health degraded. Attempting request anyway.''])
       \<and> warnings (snd (initLunaChat p c name hist m)) =
           warnings m @ (if isServiceHealthy m then []
              else [lit ''Gemini AI service health check failed. Proceeding with caution.''])"
proof -
  have "(\<not> isServiceHealthy m) = (10 \<le> errorCount (getServiceMetrics m))"
    using assms
    by (auto simp: isServiceHealthy_def isHealthy_def getServiceMetrics_def getMetrics_def
        getAI_def)
  then show ?thesis
    using send_ignores_errorCount [of chat input h out now n m]
      init_ignores_errorCount [of p c name hist n m]
      send_warnings [OF assms] init_warnings [OF assms]
    by simp
qed

theorem C8_unhealthy_from_ten_errors_only_warns_witness:
  "\<not> isServiceHealthy demo_degraded
   \<and> fst (sendUserMessageToLuna demo_chat (lit ''hello'') []
            (Resolves 120 (Some (lit ''Hi there''))) 0 (with_errorCount 0 demo_degraded))
       = fst (sendUserMessageToLuna demo_chat (lit ''hello'') []
            (Resolves 120 (Some (lit ''Hi there''))) 0 demo_degraded)
   \<and> warnings (snd (sendUserMessageToLuna demo_chat (lit ''hello'') []
            (Resolves 120 (Some (lit ''Hi there''))) 0 demo_degraded))
       = warnings demo_degraded @ [lit ''Service health degraded. Attempting request anyway.'']"
  using C8_unhealthy_from_ten_errors_only_warns [OF demo_degraded_count(1),
      where chat = demo_chat and input = "lit ''hello''" and h = "[]"
        and out = "Resolves 120 (Some (lit ''Hi there''))" and now = 0 and n = 0]
    demo_degraded_count(2)
  by auto

theorem C8_counterexample:
  "\<not> (10 < errorCount (getServiceMetrics demo_degraded)) \<and> \<not> isServiceHealthy demo_degraded"
  using demo_degraded_count
  by (simp add: isServiceHealthy_def isHealthy_def getServiceMetrics_def getMetrics_def)

text \<open>
  C9 (the code at a successful exchange). A first message passes the guards, reaches the
  network client and is answered after 120 ms. The latency is recorded, but the request
  count that \<open>getServiceMetrics\<close> shows is still 0 and the time of the last successful
  request is still unset: both writes went to the copy that \<open>getMetrics()\<close> returned.
\<close>

theorem C9_request_counter_stays_zero:
  "fst (sendUserMessageToLuna demo_chat (lit ''hello'') [] (Resolves 120 (Some (lit ''Hi there'')))
          1700000000000 demo_module) = Some (lit ''Hi there'')
   \<and> apiCalls (snd (sendUserMessageToLuna demo_chat (lit ''hello'') []
          (Resolves 120 (Some (lit ''Hi there''))) 1700000000000 demo_module)) = [lit ''hello'']
   \<and> responseTimes (geminiService (snd (sendUserMessageToLuna demo_chat (lit ''hello'') []
          (Resolves 120 (Some (lit ''Hi there''))) 1700000000000 demo_module))) = [120]
   \<and> requestCount (getServiceMetrics demo_module) = 0
   \<and> requestCount (getServiceMetrics (snd (sendUserMessageToLuna demo_chat (lit ''hello'') []
          (Resolves 120 (Some (lit ''Hi there''))) 1700000000000 demo_module))) = 0
   \<and> lastSuccessfulRequest (getServiceMetrics (snd (sendUserMessageToLuna demo_chat
          (lit ''hello'') [] (Resolves 120 (Some (lit ''Hi there''))) 1700000000000
          demo_module))) = None"
proof -
  have g: "getAI (geminiService demo_module) = Some \<lparr>apiKey = lit ''AIzaSample''\<rparr>"
    by (rule demo_ai)
  have n: "lit ''hello'' \<noteq> []" "lit ''Hi there'' \<noteq> []" "length (lit ''hello'') \<le> 4000"
    by (simp_all add: lit_def)
  have m0: "requestCount (getServiceMetrics demo_module) = 0"
    "lastSuccessfulRequest (getServiceMetrics demo_module) = None"
    "responseTimes (geminiService demo_module) = []" "apiCalls demo_module = []"
    by (simp_all add: getServiceMetrics_def getMetrics_def demo_module_def demo_service_def
        initializeService_def js_or_def truthy_def lit_def Let_def)
  have s: "sendUserMessageToLuna demo_chat (lit ''hello'') []
             (Resolves 120 (Some (lit ''Hi there''))) 1700000000000 demo_module
           = (Some (lit ''Hi there''),
              demo_module\<lparr>apiCalls := [lit ''hello''],
                geminiService := recordResponseTime 120 (geminiService demo_module)\<rparr>)"
    using g demo_healthy n m0
    by (simp add: sendUserMessageToLuna_def Let_def promise_race_def REQUEST_TIMEOUT_MS_def
        hello_trim hi_there_trim truthy_def)
  show ?thesis
    using m0 by (simp add: s getServiceMetrics_def getMetrics_def recordResponseTime_def Let_def)
qed


text \<open>
  C6 (as amended). Two calls of \<open>toggleMute\<close> in a row restore the mute flag. If speech
  output was playing at the first call and that call is the muting one (the flag was
  off), the first call cancels the output at once and the second call does not resume
  it. No call of \<open>toggleMute\<close> ever starts output: after a call, nothing is playing or
  queued that was not before.
\<close>

theorem C6_toggleMute_twice:
  "isMuted (app (toggleMute (toggleMute w))) = isMuted (app w)
   \<and> (isSpeaking (tts w) \<and> isSupported (tts w) \<and> \<not> isMuted (app w) \<longrightarrow>
        \<not> isSpeaking (tts (toggleMute w)) \<and> queue (tts (toggleMute w)) = []
        \<and> \<not> isSpeaking (tts (toggleMute (toggleMute w)))
        \<and> queue (tts (toggleMute (toggleMute w))) = [])
   \<and> (\<not> isSpeaking (tts (toggleMute w)) \<longrightarrow> \<not> isSpeaking (tts (toggleMute (toggleMute w))))
   \<and> (queue (tts (toggleMute w)) = [] \<longrightarrow> queue (tts (toggleMute (toggleMute w))) = [])"
  by (auto simp: toggleMute_def Let_def cancel_def)

theorem C6_toggleMute_twice_witness:
  "isSpeaking (tts demo_speaking) \<and> isSupported (tts demo_speaking)
   \<and> queue (tts demo_speaking) = [lit ''Hello'']
   \<and> isMuted (app demo_speaking) = False
   \<and> isMuted (app (toggleMute demo_speaking)) = True
   \<and> isMuted (app (toggleMute (toggleMute demo_speaking))) = False
   \<and> isSpeaking (tts (toggleMute demo_speaking)) = False
   \<and> queue (tts (toggleMute demo_speaking)) = []
   \<and> isSpeaking (tts (toggleMute (toggleMute demo_speaking))) = False
   \<and> queue (tts (toggleMute (toggleMute demo_speaking))) = []"
proof -
  have s: "isSpeaking (tts demo_speaking)" "isSupported (tts demo_speaking)"
    "\<not> isMuted (app demo_speaking)" "queue (tts demo_speaking) = [lit ''Hello'']"
    by (simp_all add: demo_speaking_def demo_world_def speak_def utterance_onstart_def Let_def)
  from C6_toggleMute_twice [of demo_speaking] s toggleMute_flag [of demo_speaking]
  show ?thesis by simp
qed

theorem C6_counterexample:
  "isSpeaking (tts demo_muted_speaking)
   \<and> isSpeaking (tts (toggleMute demo_muted_speaking))
   \<and> queue (tts (toggleMute demo_muted_speaking)) = [lit ''Hello'']"
  by (simp add: demo_muted_speaking_def demo_world_def speak_def utterance_onstart_def
      toggleMute_def cancel_def Let_def)

text \<open>
  C7 (as amended). For every identity that is not the empty string and every message
  list, on a storage that takes the write, \<open>saveChatHistory\<close> followed by
  \<open>loadChatHistory\<close> yields the messages in their order with id, sender, text and audio
  URL as saved; and when every timestamp is a valid instant the list that comes back is
  the list that was saved, each timestamp the same instant.
\<close>

theorem C7_history_round_trip:
  assumes "symbolicNameId \<noteq> []" and "\<not> blocked ls" and "\<not> full ls"
  shows "(valid_timestamps msgs \<longrightarrow>
            loadChatHistory symbolicNameId (saveChatHistory symbolicNameId msgs ls) = Some msgs)
       \<and> (\<exists>loaded.
            loadChatHistory symbolicNameId (saveChatHistory symbolicNameId msgs ls) = Some loaded
            \<and> map m_id loaded = map m_id msgs
            \<and> map m_sender loaded = map m_sender msgs
            \<and> map m_text loaded = map m_text msgs
            \<and> map m_audioUrl loaded = map m_audioUrl msgs)"
  using load_after_save [OF assms] map_rehydrate_toJSON [of msgs]
  by (simp add: rehydrate_toJSON_fields)

theorem C7_history_round_trip_witness:
  "loadChatHistory (lit ''river'') (saveChatHistory (lit ''river'') [demo_message] demo_storage)
     = Some [demo_message]"
proof -
  have "lit ''river'' \<noteq> []" by (simp add: lit_def)
  moreover have "\<not> blocked demo_storage" "\<not> full demo_storage"
    by (simp_all add: demo_storage_def)
  moreover have "valid_timestamps [demo_message]"
    by (simp add: valid_timestamps_def demo_message_def)
  ultimately show ?thesis using C7_history_round_trip [of "lit ''river''" demo_storage "[demo_message]"]
    by simp
qed

theorem C7_counterexample:
  "loadChatHistory [] (saveChatHistory [] [demo_message] demo_storage) \<noteq> Some [demo_message]"
  by (simp add: loadChatHistory_def)


text \<open>
  C5 (as amended). A send fails in one of six ways: there is no client, the response has
  no text, or the race with the timer ends in a rejection of the class timeout, quota or
  rate limit, connectivity or unknown (a call still unresolved after the 30 seconds has
  the class timeout). Each way has one fixed message, which is the answer of
  \<open>sendUserMessageToLuna\<close> and which the controller appends word for word as the text
  of its last message; apart from the missing client the failure raises the error
  count by one. Two failures show the operator the same message exactly when they are
  of the same kind, whatever the inputs, the states and the clocks.
\<close>

theorem C5_each_failure_has_its_fixed_message:
  assumes "failure_of (gemini w) input out = Some f"
    and "lunaChat (app w) = Some chat" and "\<not> whitespace_only input"
    and "failure_of (gemini w') input' out' = Some f'"
    and "lunaChat (app w') = Some chat'" and "\<not> whitespace_only input'"
  shows "fst (sendUserMessageToLuna chat input h out now (gemini w)) = Some (fixed_message f)
       \<and> m_text (last (messages (app (handleUserSpeechResult input now0 out now1 w))))
           = fixed_message f
       \<and> ((f = f') =
            (m_text (last (messages (app (handleUserSpeechResult input now0 out now1 w))))
             = m_text (last (messages (app (handleUserSpeechResult input' now0' out' now1' w'))))))
       \<and> (f = NoClient \<or>
            errorCount (getServiceMetrics (gemini (handleUserSpeechResult input now0 out now1 w)))
            = errorCount (getServiceMetrics (gemini w)) + 1)
       \<and> (getAI (geminiService (gemini w)) \<noteq> None \<and> length input \<le> 4000
            \<and> unresolved_after_timeout out \<longrightarrow> f = Thrown Timeout)"
proof -
  have a: "fst (sendUserMessageToLuna chat input k out t (gemini w)) = Some (fixed_message f)"
    for k t
    by (rule send_failure_message [OF assms(1)])
  have b: "fst (sendUserMessageToLuna chat' input' k out' t (gemini w')) = Some (fixed_message f')"
    for k t
    by (rule send_failure_message [OF assms(4)])
  have c: "m_text (last (messages (app (handleUserSpeechResult input now0 out now1 w))))
             = fixed_message f"
    using handle_with_chat(3) [OF assms(3,2), of now0 out now1] a by simp
  have d: "m_text (last (messages (app (handleUserSpeechResult input' now0' out' now1' w'))))
             = fixed_message f'"
    using handle_with_chat(3) [OF assms(6,5), of now0' out' now1'] b by simp
  have e: "f = NoClient \<or>
            errorCount (getServiceMetrics (gemini (handleUserSpeechResult input now0 out now1 w)))
            = errorCount (getServiceMetrics (gemini w)) + 1"
  proof (cases "getAI (geminiService (gemini w))")
    case None
    with assms(1) show ?thesis by (simp add: failure_of_def)
  next
    case (Some client)
    then have "getAI (geminiService (gemini w)) \<noteq> None" by simp
    from send_failure_is_logged [OF this, of chat input "messages (app w)" out "int now1"]
      assms(1) handle_with_chat(4) [OF assms(3,2), of now0 out now1]
    show ?thesis by simp
  qed
  have g: "f = Thrown Timeout"
    if "getAI (geminiService (gemini w)) \<noteq> None" "length input \<le> 4000"
      "unresolved_after_timeout out"
    using assms(1,3) that race_timeout [OF that(3)]
    by (simp add: failure_of_def timeout_class)
  show ?thesis
    using a c d e g fixed_message_inj [of f f'] by auto
qed

theorem C5_each_failure_has_its_fixed_message_witness:
  "fst (sendUserMessageToLuna demo_chat (lit ''hello'') []
          (Rejects 40 (ErrorObj (lit ''429: quota exceeded''))) 0 (gemini demo_world))
     = Some MSG_QUOTA
   \<and> m_text (last (messages (app (handleUserSpeechResult (lit ''hello'') 7
          (Rejects 40 (ErrorObj (lit ''429: quota exceeded''))) 9 demo_world))))
     = m_text (last (messages (app (handleUserSpeechResult (lit ''hello'') 11
          (Rejects 90 (ErrorObj (lit ''rate limit reached''))) 13 demo_world))))"
proof -
  note t = C5_each_failure_has_its_fixed_message
    [OF demo_failure_quota demo_world_chat hello_not_blank
        demo_failure_limit demo_world_chat hello_not_blank,
     where h = "[]" and now = 0 and ?now0.0 = 7 and ?now1.0 = 9
       and ?now0' = 11 and ?now1' = 13]
  from t show ?thesis
    by (auto simp: fixed_message_def apology_for_def)
qed

theorem C5_counterexample:
  "fst (sendUserMessageToLuna demo_chat (lit ''hello'') [] (Resolves 120 None) 0 demo_module)
     = Some MSG_EMPTY_RESPONSE
   \<and> lastError (getServiceMetrics (snd (sendUserMessageToLuna demo_chat (lit ''hello'') []
        (Resolves 120 None) 0 demo_module))) = Some (lit ''Empty response received'')
   \<and> errorCount (getServiceMetrics (snd (sendUserMessageToLuna demo_chat (lit ''hello'') []
        (Resolves 120 None) 0 demo_module))) = errorCount (getServiceMetrics demo_module) + 1
   \<and> MSG_EMPTY_RESPONSE
        \<notin> set [apology_for Timeout, apology_for RateLimit, apology_for Connectivity,
                apology_for Unknown]"
proof -
  have g: "getAI (geminiService demo_module) = Some \<lparr>apiKey = lit ''AIzaSample''\<rparr>"
    by (rule demo_ai)
  have n: "lit ''hello'' \<noteq> []" "length (lit ''hello'') \<le> 4000"
    by (simp_all add: lit_def)
  have s: "sendUserMessageToLuna demo_chat (lit ''hello'') [] (Resolves 120 None) 0 demo_module
           = (Some MSG_EMPTY_RESPONSE,
              demo_module\<lparr>apiCalls := apiCalls demo_module @ [lit ''hello''],
                geminiService := logError (lit ''Empty response received'')
                  (recordResponseTime 120 (geminiService demo_module))\<rparr>)"
    using g demo_healthy n
    by (simp add: sendUserMessageToLuna_def Let_def promise_race_def REQUEST_TIMEOUT_MS_def
        hello_trim truthy_def)
  have d: "MSG_EMPTY_RESPONSE
        \<notin> set [apology_for Timeout, apology_for RateLimit, apology_for Connectivity,
                apology_for Unknown]"
    using fixed_messages_distinct by (simp add: apology_for_def)
  show ?thesis
    using d by (simp add: s getServiceMetrics_def getMetrics_def logError_def
        recordResponseTime_def Let_def)
qed

text \<open>
  C2 (the code when the operator starts listening). On the mounted hook
  \<open>startListening\<close> starts the recogniser and sets \<open>isListening\<close>; the render that follows
  runs the effect again, which aborts that recogniser and puts one in its place that
  nothing starts. The hook then listens without a session: the browser delivers none of
  the results of "I feel tired", the transcript stays empty and after the 1.5 seconds
  of silence nothing is finalized. Even with the handlers run on those events, the
  timer's \<open>stop()\<close> meets a recogniser without a session, no \<open>end\<close> follows, nothing is
  finalized and the hook goes on listening.
\<close>

theorem C2_capture_is_aborted_after_start:
  "isListening (run [StartListening None None] demo_recog)
   \<and> \<not> active (run [StartListening None None] demo_recog)
   \<and> transcript (run (StartListening None None # demo_utterance) demo_recog) = []
   \<and> finalized (run (StartListening None None # demo_utterance) demo_recog) = []
   \<and> finalizedText (run (StartListening None None # demo_utterance) demo_recog) = None
   \<and> transcript (run_handlers demo_utterance (run [StartListening None None] demo_recog))
        = lit ''I feel tired''
   \<and> stopCalls (run_handlers demo_utterance (run [StartListening None None] demo_recog)) = 1
   \<and> finalized (run_handlers demo_utterance (run [StartListening None None] demo_recog)) = []
   \<and> finalizedText (run_handlers demo_utterance (run [StartListening None None] demo_recog))
        = None
   \<and> isListening (run_handlers demo_utterance (run [StartListening None None] demo_recog))"
proof -
  have a: "run (StartListening None None # demo_utterance) demo_recog
             = run demo_utterance (run [StartListening None None] demo_recog)"
    by (simp add: run_def)
  have b: "run demo_utterance (demo_recog\<lparr>isListening := True\<rparr>)
             = demo_recog\<lparr>isListening := True\<rparr>"
    by (simp add: run_def demo_utterance_def deliver_def recogniser_event_def invoke_def
        handler_def elapse_def render_def syncTranscriptRef_def demo_recog_def Let_def)
  have c: "run_handlers demo_utterance (demo_recog\<lparr>isListening := True\<rparr>)
             = demo_recog\<lparr>isListening := True, transcript := lit ''I feel tired'',
                  transcriptRef := lit ''I feel tired'', stopCalls := 1\<rparr>"
    by (simp add: run_handlers_def demo_utterance_def invoke_def handler_def onresult_def
        onspeechend_def elapse_def speechEndTimeout_fires_def recognition_stop_def
        SPEECH_END_TIMEOUT_MS_def render_def syncTranscriptRef_def clearSpeechEndTimeout_def
        demo_recog_def lit_def Let_def)
  show ?thesis
    by (simp add: a started b c) (simp add: demo_recog_def)
qed


end
